theory Spec2Isabelle
  imports Main
begin

section \<open>The "exact" EVM facilitator: verify and settle\<close>

text \<open>
  A shallow embedding of the two exported functions of the facilitator module,
  \<^verbatim>\<open>verify\<close> and \<^verbatim>\<open>settle\<close>. Both are asynchronous TypeScript functions whose
  work is done by external collaborators (network table, chain configuration,
  \<^verbatim>\<open>viem\<close>'s \<^verbatim>\<open>verifyTypedData\<close> and \<^verbatim>\<open>getAddress\<close>, the clock, the balance read, the
  wallet). The collaborators are the fields of a record \<open>world\<close>; each of them may
  throw, so each returns a sum with \<open>Inl\<close> the exception. A call of the function is a
  computation that threads the list of external calls made so far (the trace) and ends
  either with a value or with the exception that leaves the function (a rejected promise).
  Of the diagnostic logging (\<^verbatim>\<open>console.error\<close>) the model keeps what its arguments
  call: the clock reads of the two temporal rejections. The other log arguments only read
  fields of the inputs.
\<close>

subsection \<open>Data model\<close>

text \<open>Field names follow the source; \<^verbatim>\<open>from\<close>, \<^verbatim>\<open>to\<close> and \<^verbatim>\<open>value\<close> of the authorization
  carry the prefix \<open>auth_\<close>, the requirements' \<^verbatim>\<open>scheme\<close> and \<^verbatim>\<open>network\<close> the prefix \<open>req_\<close>,
  the settle response's \<^verbatim>\<open>network\<close> and \<^verbatim>\<open>payer\<close> the prefix \<open>settle_\<close>. Amounts and
  times are the decimal strings of the wire format; the functions convert them with
  \<^verbatim>\<open>BigInt\<close>.\<close>

record Authorization =
  auth_from :: string
  auth_to :: string
  auth_value :: string
  validAfter :: string
  validBefore :: string
  nonce :: string

record ExactEvmPayload =
  authorization :: Authorization
  signature :: string

record PaymentPayload =
  scheme :: string
  network :: string
  payload :: ExactEvmPayload

record Extra =
  extra_name :: "string option"
  extra_version :: "string option"

record PaymentRequirements =
  req_scheme :: string
  req_network :: string
  asset :: string
  payTo :: string
  maxAmountRequired :: string
  extra :: "Extra option"

record VerifyResponse =
  isValid :: bool
  invalidReason :: "string option"
  payer :: string

record SettleResponse =
  success :: bool
  settle_network :: string
  transaction :: string
  errorReason :: "string option"
  settle_payer :: string

text \<open>The argument of \<^verbatim>\<open>verifyTypedData\<close>: the address to check against, the EIP-712
  domain, the message and the signature (\<^verbatim>\<open>types\<close> and \<^verbatim>\<open>primaryType\<close> are constants).\<close>

record Domain =
  domain_name :: string
  domain_version :: string
  chainId :: int
  verifyingContract :: string

record Message =
  msg_from :: string
  msg_to :: string
  msg_value :: string
  msg_validAfter :: string
  msg_validBefore :: string
  msg_nonce :: string

record TypedDataParameters =
  td_address :: string
  td_domain :: Domain
  td_message :: Message
  td_signature :: string

text \<open>The argument of \<^verbatim>\<open>wallet.writeContract\<close> (\<^verbatim>\<open>abi\<close> and \<^verbatim>\<open>chain\<close> are constants of the
  wallet).\<close>

record WriteContractParameters =
  wc_address :: string
  functionName :: string
  arg_from :: string
  arg_to :: string
  arg_value :: int
  arg_validAfter :: int
  arg_validBefore :: int
  arg_nonce :: string
  arg_signature :: string

record ChainConfig =
  usdcAddress :: string
  usdcName :: string

datatype fault = Thrown string

text \<open>
  The external collaborators. \<open>config\<close> is the table \<^verbatim>\<open>config[chainId.toString()]\<close>, keyed
  here by the chain id itself. \<open>dateNow k\<close> is the value of the \<open>k\<close>-th evaluation of
  \<^verbatim>\<open>Date.now()\<close> (milliseconds) in a call of the function, counted from 0: the clock may
  advance between the evaluations. \<open>waitForTransactionReceipt\<close> returns the receipt's
  status.
\<close>

record world =
  getNetworkId :: "string \<Rightarrow> fault + int"
  config :: "int \<Rightarrow> ChainConfig option"
  getVersion :: "fault + string"
  verifyTypedData :: "TypedDataParameters \<Rightarrow> fault + bool"
  getAddress :: "string \<Rightarrow> fault + string"
  BigInt :: "string \<Rightarrow> fault + int"
  dateNow :: "nat \<Rightarrow> int"
  getERC20Balance :: "string \<Rightarrow> string \<Rightarrow> fault + int"
  writeContract :: "WriteContractParameters \<Rightarrow> fault + string"
  waitForTransactionReceipt :: "string \<Rightarrow> fault + string"

subsection \<open>Calls, exceptions and the trace\<close>

datatype event =
    E_getNetworkId string
  | E_getVersion
  | E_verifyTypedData TypedDataParameters
  | E_getAddress string
  | E_dateNow
  | E_getERC20Balance string string
  | E_writeContract WriteContractParameters
  | E_waitForTransactionReceipt string

type_synonym 'a io = "event list \<Rightarrow> (fault + 'a) \<times> event list"

definition ret :: "'a \<Rightarrow> 'a io" where
  "ret x tr = (Inr x, tr)"

definition raise :: "fault \<Rightarrow> 'a io" where
  "raise e tr = (Inl e, tr)"

text \<open>Sequencing: an exception of the first computation ends the whole.\<close>

definition bnd :: "'a io \<Rightarrow> ('a \<Rightarrow> 'b io) \<Rightarrow> 'b io" where
  "bnd m f tr = (case m tr of (Inl e, tr') \<Rightarrow> (Inl e, tr') | (Inr x, tr') \<Rightarrow> f x tr')"

text \<open>\<^verbatim>\<open>try { x = m } catch { return h }\<close> followed by \<open>k x\<close>: any exception of \<open>m\<close> is
  swallowed and the function returns \<open>h\<close>.\<close>

definition try_catch_return :: "'a io \<Rightarrow> 'b io \<Rightarrow> ('a \<Rightarrow> 'b io) \<Rightarrow> 'b io" where
  "try_catch_return m h k tr =
     (case m tr of (Inl e, tr') \<Rightarrow> h tr' | (Inr x, tr') \<Rightarrow> k x tr')"

text \<open>A call of an external collaborator is recorded in the trace, whatever it returns.\<close>

definition call :: "event \<Rightarrow> fault + 'a \<Rightarrow> 'a io" where
  "call ev res tr = (res, tr @ [ev])"

text \<open>A computation of the language itself that may throw (\<^verbatim>\<open>BigInt(s)\<close>).\<close>

definition pure :: "fault + 'a \<Rightarrow> 'a io" where
  "pure res tr = (res, tr)"

text \<open>The calls that reach the Chain Submitter, and those that reach the Balance Oracle.\<close>

fun chain_submitter_call :: "event \<Rightarrow> bool" where
  "chain_submitter_call (E_writeContract _) = True"
| "chain_submitter_call (E_waitForTransactionReceipt _) = True"
| "chain_submitter_call _ = False"

fun balance_oracle_call :: "event \<Rightarrow> bool" where
  "balance_oracle_call (E_getERC20Balance _ _) = True"
| "balance_oracle_call _ = False"

subsection \<open>verify\<close>

text \<open>Modelled from the spec: the constant \<^verbatim>\<open>SCHEME\<close>, imported from the module
  \<^verbatim>\<open>../../exact\<close>, which is not among the sources. The spec names the scheme "exact".\<close>

definition SCHEME :: string where
  "SCHEME = ''exact''"

text \<open>\<^verbatim>\<open>paymentRequirements.extra?.name\<close> and \<^verbatim>\<open>paymentRequirements.extra?.version\<close>:
  undefined when \<^verbatim>\<open>extra\<close> is absent or lacks the key.\<close>

definition optional_name :: "PaymentRequirements \<Rightarrow> string option" where
  "optional_name r = (case extra r of None \<Rightarrow> None | Some x \<Rightarrow> extra_name x)"

definition optional_version :: "PaymentRequirements \<Rightarrow> string option" where
  "optional_version r = (case extra r of None \<Rightarrow> None | Some x \<Rightarrow> extra_version x)"

text \<open>The body of the \<^verbatim>\<open>try\<close> block: chain id, token name, token address and version.
  \<^verbatim>\<open>extra?.name ?? config[chainId.toString()].usdcName\<close> reads the table only when the
  requirements give no name, and throws a \<^verbatim>\<open>TypeError\<close> when the table has no entry; the
  token address is the requirements' \<^verbatim>\<open>asset\<close>, cast and not inspected.\<close>

definition resolve ::
  "world \<Rightarrow> PaymentPayload \<Rightarrow> PaymentRequirements \<Rightarrow> (int \<times> string \<times> string \<times> string) io" where
  "resolve w p paymentRequirements =
     bnd (call (E_getNetworkId (network p)) (getNetworkId w (network p))) (\<lambda>cid.
     bnd (case optional_name paymentRequirements of
            Some n \<Rightarrow> ret n
          | None \<Rightarrow> (case config w cid of
                       None \<Rightarrow> raise (Thrown ''TypeError'')
                     | Some c \<Rightarrow> ret (usdcName c))) (\<lambda>name.
     bnd (ret (asset paymentRequirements)) (\<lambda>erc20Address.
     bnd (case optional_version paymentRequirements of
            Some v \<Rightarrow> ret v
          | None \<Rightarrow> call E_getVersion (getVersion w)) (\<lambda>version.
     ret (cid, name, erc20Address, version)))))"

text \<open>\<^verbatim>\<open>permitTypedData\<close> together with the address and the signature passed along with it.\<close>

definition permitTypedData ::
  "int \<Rightarrow> string \<Rightarrow> string \<Rightarrow> string \<Rightarrow> PaymentPayload \<Rightarrow> TypedDataParameters" where
  "permitTypedData cid name erc20Address version p =
     \<lparr> td_address = auth_from (authorization (payload p)),
       td_domain = \<lparr> domain_name = name, domain_version = version, chainId = cid,
                     verifyingContract = erc20Address \<rparr>,
       td_message = \<lparr> msg_from = auth_from (authorization (payload p)),
                      msg_to = auth_to (authorization (payload p)),
                      msg_value = auth_value (authorization (payload p)),
                      msg_validAfter = validAfter (authorization (payload p)),
                      msg_validBefore = validBefore (authorization (payload p)),
                      msg_nonce = nonce (authorization (payload p)) \<rparr>,
       td_signature = signature (payload p) \<rparr>"

definition reject :: "string \<Rightarrow> PaymentPayload \<Rightarrow> VerifyResponse" where
  "reject reason p =
     \<lparr> isValid = False, invalidReason = Some reason,
       payer = auth_from (authorization (payload p)) \<rparr>"

text \<open>The function itself, check by check in the order of the source; \<open>p\<close> is the
  parameter \<^verbatim>\<open>payload\<close>. Each \<^verbatim>\<open>return\<close> inside an \<^verbatim>\<open>if\<close> ends the function, so the rest
  of the body is the \<open>else\<close> branch. The two temporal rejections log the current time,
  which is one more evaluation of \<^verbatim>\<open>Date.now()\<close> before the \<^verbatim>\<open>return\<close>: a run rejected as
  expired has read the clock twice, one rejected as not yet valid three times.\<close>

definition verify :: "world \<Rightarrow> PaymentPayload \<Rightarrow> PaymentRequirements \<Rightarrow> VerifyResponse io" where
  "verify w p paymentRequirements =
     \<comment> \<open>Verify payload version\<close>
     (if scheme p \<noteq> SCHEME \<or> req_scheme paymentRequirements \<noteq> SCHEME then
        ret (reject (''Incompatible payload scheme. payload: '' @ scheme p
               @ '', paymentRequirements: '' @ req_scheme paymentRequirements
               @ '', supported: '' @ SCHEME) p)
      else
        try_catch_return (resolve w p paymentRequirements)
          (ret (reject ''invalid_network'' p))
          (\<lambda>(cid, name, erc20Address, version).
     \<comment> \<open>Verify permit signature is recoverable for the owner address\<close>
     bnd (call (E_verifyTypedData (permitTypedData cid name erc20Address version p))
            (verifyTypedData w (permitTypedData cid name erc20Address version p)))
         (\<lambda>recoveredAddress.
     if \<not> recoveredAddress then ret (reject ''invalid_scheme'' p)
     else
     \<comment> \<open>Verify that payment was made to the correct address\<close>
     bnd (call (E_getAddress (auth_to (authorization (payload p))))
            (getAddress w (auth_to (authorization (payload p))))) (\<lambda>to_address.
     bnd (call (E_getAddress (payTo paymentRequirements))
            (getAddress w (payTo paymentRequirements))) (\<lambda>payTo_address.
     if to_address \<noteq> payTo_address then ret (reject ''invalid_scheme'' p)
     else
     \<comment> \<open>Verify deadline is not yet expired; pad 3 blocks to account for round tripping\<close>
     bnd (pure (BigInt w (validBefore (authorization (payload p))))) (\<lambda>vb.
     bnd (call E_dateNow (Inr (dateNow w 0))) (\<lambda>now0.
     if vb < now0 div 1000 + 6 then
       \<comment> \<open>the log's \<^verbatim>\<open>currentTime: Math.floor(Date.now() / 1000)\<close>\<close>
       bnd (call E_dateNow (Inr (dateNow w 1))) (\<lambda>currentTime.
       ret (reject ''invalid_scheme'' p))
     else
     \<comment> \<open>Verify deadline is not yet valid\<close>
     bnd (pure (BigInt w (validAfter (authorization (payload p))))) (\<lambda>va.
     bnd (call E_dateNow (Inr (dateNow w 1))) (\<lambda>now1.
     if va > now1 div 1000 then
       \<comment> \<open>the log's \<^verbatim>\<open>currentTime: Math.floor(Date.now() / 1000)\<close>\<close>
       bnd (call E_dateNow (Inr (dateNow w 2))) (\<lambda>currentTime.
       ret (reject ''invalid_scheme'' p))
     else
     \<comment> \<open>Verify client has enough funds to cover \<^verbatim>\<open>maxAmountRequired\<close>\<close>
     bnd (call (E_getERC20Balance erc20Address (auth_from (authorization (payload p))))
            (getERC20Balance w erc20Address (auth_from (authorization (payload p)))))
         (\<lambda>balance.
     bnd (pure (BigInt w (maxAmountRequired paymentRequirements))) (\<lambda>required.
     if balance < required then ret (reject ''insufficient_funds'' p)
     else
     \<comment> \<open>Verify value in payload is enough to cover \<^verbatim>\<open>maxAmountRequired\<close>\<close>
     bnd (pure (BigInt w (auth_value (authorization (payload p))))) (\<lambda>v.
     bnd (pure (BigInt w (maxAmountRequired paymentRequirements))) (\<lambda>required'.
     if v < required' then ret (reject ''invalid_scheme'' p)
     else
       ret \<lparr> isValid = True, invalidReason = None,
             payer = auth_from (authorization (payload p)) \<rparr>)))))))))))))"

subsection \<open>settle\<close>

definition transferArgs ::
  "PaymentPayload \<Rightarrow> PaymentRequirements \<Rightarrow> int \<Rightarrow> int \<Rightarrow> int \<Rightarrow> WriteContractParameters" where
  "transferArgs p paymentRequirements v va vb =
     \<lparr> wc_address = asset paymentRequirements,
       functionName = ''transferWithAuthorization'',
       arg_from = auth_from (authorization (payload p)),
       arg_to = auth_to (authorization (payload p)),
       arg_value = v, arg_validAfter = va, arg_validBefore = vb,
       arg_nonce = nonce (authorization (payload p)),
       arg_signature = signature (payload p) \<rparr>"

text \<open>The wallet of \<^verbatim>\<open>settle\<close> is also the client of its call of \<^verbatim>\<open>verify\<close>; both are
  the one \<open>world\<close> here. The arguments of \<^verbatim>\<open>writeContract\<close> are evaluated, three \<^verbatim>\<open>BigInt\<close>
  conversions among them, before the call.\<close>

definition settle :: "world \<Rightarrow> PaymentPayload \<Rightarrow> PaymentRequirements \<Rightarrow> SettleResponse io" where
  "settle w paymentPayload paymentRequirements =
     \<comment> \<open>re-verify to ensure the payment is still valid\<close>
     bnd (verify w paymentPayload paymentRequirements) (\<lambda>valid.
     if \<not> isValid valid then
       ret \<lparr> success = False, settle_network = network paymentPayload, transaction = '''',
             errorReason = Some ''invalid_scheme'',
             settle_payer = auth_from (authorization (payload paymentPayload)) \<rparr>
     else
     bnd (pure (BigInt w (auth_value (authorization (payload paymentPayload))))) (\<lambda>v.
     bnd (pure (BigInt w (validAfter (authorization (payload paymentPayload))))) (\<lambda>va.
     bnd (pure (BigInt w (validBefore (authorization (payload paymentPayload))))) (\<lambda>vb.
     bnd (call (E_writeContract (transferArgs paymentPayload paymentRequirements v va vb))
            (writeContract w (transferArgs paymentPayload paymentRequirements v va vb)))
         (\<lambda>tx.
     bnd (call (E_waitForTransactionReceipt tx) (waitForTransactionReceipt w tx)) (\<lambda>status.
     if status \<noteq> ''success'' then
       ret \<lparr> success = False, settle_network = network paymentPayload, transaction = tx,
             errorReason = Some ''invalid_scheme'',
             settle_payer = auth_from (authorization (payload paymentPayload)) \<rparr>
     else
       ret \<lparr> success = True, settle_network = network paymentPayload, transaction = tx,
             errorReason = None,
             settle_payer = auth_from (authorization (payload paymentPayload)) \<rparr>))))))"

subsection \<open>A concrete world\<close>

text \<open>
  An instance of the collaborators, used to run the functions on concrete inputs: the
  Base Sepolia network and its USDC contract, a clock at 1700000000 seconds, a balance of
  5000 base units, a wallet whose transactions succeed. Addresses are 0x followed by 40
  hexadecimal digits; \<open>getAddress\<close> throws on anything else and otherwise normalises the
  case of the digits (\<^verbatim>\<open>viem\<close> returns the EIP-55 form, which is likewise a function of the
  case-folded address); \<open>verifyTypedData\<close> throws on a malformed address, as \<^verbatim>\<open>viem\<close>
  does, and otherwise accepts the payer's signature over the USDC domain without looking
  at the message, so that the examples can vary the authorization. \<open>BigInt\<close> reads decimal
  digits and throws a \<^verbatim>\<open>SyntaxError\<close> on any other character.
\<close>

definition isHex :: "char \<Rightarrow> bool" where
  "isHex c = (c \<in> set ''0123456789abcdefABCDEF'')"

definition isAddress :: "string \<Rightarrow> bool" where
  "isAddress s = (length s = 42 \<and> take 2 s = ''0x'' \<and> list_all isHex (drop 2 s))"

definition lowerHex :: "char \<Rightarrow> char" where
  "lowerHex c =
     (if c = CHR ''A'' then CHR ''a'' else if c = CHR ''B'' then CHR ''b''
      else if c = CHR ''C'' then CHR ''c'' else if c = CHR ''D'' then CHR ''d''
      else if c = CHR ''E'' then CHR ''e'' else if c = CHR ''F'' then CHR ''f'' else c)"

definition digit :: "char \<Rightarrow> int option" where
  "digit = map_of [(CHR ''0'', 0), (CHR ''1'', 1), (CHR ''2'', 2), (CHR ''3'', 3),
     (CHR ''4'', 4), (CHR ''5'', 5), (CHR ''6'', 6), (CHR ''7'', 7), (CHR ''8'', 8),
     (CHR ''9'', 9)]"

fun parseDecimal :: "string \<Rightarrow> int \<Rightarrow> fault + int" where
  "parseDecimal [] acc = Inr acc"
| "parseDecimal (c # cs) acc =
     (case digit c of
        None \<Rightarrow> Inl (Thrown ''SyntaxError'')
      | Some d \<Rightarrow> parseDecimal cs (10 * acc + d))"

definition usdc :: string where
  "usdc = ''0x036CbD53842c5426634e7929541eC2318f3dCF7e''"

definition alice :: string where
  "alice = ''0x857b06519E91e3A54538791bDbb0E22373e36b66''"

definition shop :: string where
  "shop = ''0x209693Bc6afc0C5328bA36FaF03C514EF312287C''"

definition aliceSignature :: string where
  "aliceSignature = ''0x2d6a7588d6acca505cbf0d9a4a227e0c52c6c34008c8e8986a1283259764173608a2ce6496642e377d6da8dbbf5836e9bd15092f9ecab05ded3d6293af148b571c''"

definition w0 :: world where
  "w0 = \<lparr>
     getNetworkId = (\<lambda>n. if n = ''base-sepolia'' then Inr 84532
                         else if n = ''base'' then Inr 8453
                         else Inl (Thrown ''Unsupported network'')),
     config = (\<lambda>c. if c = 84532 then Some \<lparr> usdcAddress = usdc, usdcName = ''USDC'' \<rparr>
                   else None),
     getVersion = Inr ''2'',
     verifyTypedData = (\<lambda>td.
        if \<not> isAddress (td_address td) \<or> \<not> isAddress (verifyingContract (td_domain td))
        then Inl (Thrown ''InvalidAddressError'')
        else Inr (td_address td = alice \<and> td_signature td = aliceSignature
                  \<and> td_domain td = \<lparr> domain_name = ''USDC'', domain_version = ''2'',
                                       chainId = 84532, verifyingContract = usdc \<rparr>)),
     getAddress = (\<lambda>s. if isAddress s then Inr (map lowerHex s)
                       else Inl (Thrown ''InvalidAddressError'')),
     BigInt = (\<lambda>s. parseDecimal s 0),
     dateNow = (\<lambda>k. 1700000000000 + int k),
     getERC20Balance = (\<lambda>token owner. Inr 5000),
     writeContract = (\<lambda>args. Inr ''0x7a1e5d0a3c9b4f6e8d2c1b0a9f8e7d6c5b4a39281706f5e4d3c2b1a0f9e8d7c6''),
     waitForTransactionReceipt = (\<lambda>h. Inr ''success'') \<rparr>"

text \<open>The payload and the requirements of the spec's end-to-end scenario: 1000 units from
  the payer to the shop, valid from ten seconds ago for another minute. The requirements
  name the shop in lower case and, unlike the payload, the network \<^verbatim>\<open>base\<close>.\<close>

definition p0 :: PaymentPayload where
  "p0 = \<lparr> scheme = ''exact'', network = ''base-sepolia'',
          payload = \<lparr> authorization =
                        \<lparr> auth_from = alice, auth_to = shop, auth_value = ''1000'',
                          validAfter = ''1699999990'', validBefore = ''1700000060'',
                          nonce = ''0x01'' \<rparr>,
                      signature = aliceSignature \<rparr> \<rparr>"

definition r0 :: PaymentRequirements where
  "r0 = \<lparr> req_scheme = ''exact'', req_network = ''base'', asset = usdc,
          payTo = ''0x209693bc6afc0c5328ba36faf03c514ef312287c'',
          maxAmountRequired = ''1000'', extra = None \<rparr>"

text \<open>Updates of single fields of the payload's authorization.\<close>

definition with_authorization ::
  "(Authorization \<Rightarrow> Authorization) \<Rightarrow> PaymentPayload \<Rightarrow> PaymentPayload" where
  "with_authorization f p =
     p\<lparr>payload := (payload p)\<lparr>authorization := f (authorization (payload p))\<rparr>\<rparr>"

text \<open>The typed data \<^verbatim>\<open>verify\<close> builds for \<open>p0\<close> in \<open>w0\<close>, and the calls of a run that
  passes every check.\<close>

definition td0 :: TypedDataParameters where
  "td0 = permitTypedData 84532 ''USDC'' usdc ''2'' p0"

definition trace0 :: "event list" where
  "trace0 = [E_getNetworkId ''base-sepolia'', E_getVersion, E_verifyTypedData td0,
             E_getAddress shop, E_getAddress ''0x209693bc6afc0c5328ba36faf03c514ef312287c'',
             E_dateNow, E_dateNow, E_getERC20Balance usdc alice]"

section \<open>Properties\<close>

lemmas io_defs = ret_def raise_def bnd_def try_catch_return_def call_def pure_def

lemmas example_defs = w0_def p0_def r0_def td0_def trace0_def usdc_def alice_def shop_def
  aliceSignature_def isAddress_def isHex_def lowerHex_def digit_def with_authorization_def
  permitTypedData_def SCHEME_def

subsection \<open>Runs in the concrete world\<close>

lemma resolve_w0: "resolve w0 p0 r0 [] =
    (Inr (84532, ''USDC'', usdc, ''2''), [E_getNetworkId ''base-sepolia'', E_getVersion])"
  by (simp add: resolve_def optional_name_def optional_version_def io_defs example_defs)

lemma verify_w0: "verify w0 p0 r0 [] =
    (Inr \<lparr>isValid = True, invalidReason = None, payer = alice\<rparr>, trace0)"
  by (simp add: verify_def resolve_def optional_name_def optional_version_def io_defs
      example_defs)

lemma verify_w0_expired:
  "verify w0 (with_authorization (\<lambda>a. a\<lparr>validBefore := ''1699999999''\<rparr>) p0) r0 [] =
    (Inr \<lparr>isValid = False, invalidReason = Some ''invalid_scheme'', payer = alice\<rparr>,
     [E_getNetworkId ''base-sepolia'', E_getVersion,
      E_verifyTypedData
        (td0\<lparr>td_message := (td_message td0)\<lparr>msg_validBefore := ''1699999999''\<rparr>\<rparr>),
      E_getAddress shop, E_getAddress ''0x209693bc6afc0c5328ba36faf03c514ef312287c'',
      E_dateNow, E_dateNow])"
  by (simp add: verify_def resolve_def optional_name_def optional_version_def io_defs
      reject_def example_defs)

lemma settle_w0: "settle w0 p0 r0 [] =
    (Inr \<lparr>success = True, settle_network = ''base-sepolia'',
          transaction = ''0x7a1e5d0a3c9b4f6e8d2c1b0a9f8e7d6c5b4a39281706f5e4d3c2b1a0f9e8d7c6'',
          errorReason = None, settle_payer = alice\<rparr>,
     trace0 @ [E_writeContract (transferArgs p0 r0 1000 1699999990 1700000060),
               E_waitForTransactionReceipt
                 ''0x7a1e5d0a3c9b4f6e8d2c1b0a9f8e7d6c5b4a39281706f5e4d3c2b1a0f9e8d7c6''])"
  by (simp add: settle_def verify_def resolve_def optional_name_def optional_version_def
      io_defs transferArgs_def example_defs)

lemma verify_w0_low:
  "verify w0 (with_authorization (\<lambda>a. a\<lparr>auth_value := ''999''\<rparr>) p0) r0 [] =
    (Inr \<lparr>isValid = False, invalidReason = Some ''invalid_scheme'', payer = alice\<rparr>,
     [E_getNetworkId ''base-sepolia'', E_getVersion,
      E_verifyTypedData (td0\<lparr>td_message := (td_message td0)\<lparr>msg_value := ''999''\<rparr>\<rparr>),
      E_getAddress shop, E_getAddress ''0x209693bc6afc0c5328ba36faf03c514ef312287c'',
      E_dateNow, E_dateNow, E_getERC20Balance usdc alice])"
  by (simp add: verify_def resolve_def optional_name_def optional_version_def io_defs
      reject_def example_defs)

lemma verify_reverted:
  "verify (w0\<lparr>waitForTransactionReceipt := \<lambda>h. Inr ''reverted''\<rparr>) p0 r0 [] =
    (Inr \<lparr>isValid = True, invalidReason = None, payer = alice\<rparr>, trace0)"
  by (simp add: verify_def resolve_def optional_name_def optional_version_def io_defs
      example_defs)

lemma settle_reverted:
  "settle (w0\<lparr>waitForTransactionReceipt := \<lambda>h. Inr ''reverted''\<rparr>) p0 r0 [] =
    (Inr \<lparr>success = False, settle_network = ''base-sepolia'',
          transaction = ''0x7a1e5d0a3c9b4f6e8d2c1b0a9f8e7d6c5b4a39281706f5e4d3c2b1a0f9e8d7c6'',
          errorReason = Some ''invalid_scheme'', settle_payer = alice\<rparr>,
     trace0 @ [E_writeContract (transferArgs p0 r0 1000 1699999990 1700000060),
               E_waitForTransactionReceipt
                 ''0x7a1e5d0a3c9b4f6e8d2c1b0a9f8e7d6c5b4a39281706f5e4d3c2b1a0f9e8d7c6''])"
  by (simp add: settle_def verify_def resolve_def optional_name_def optional_version_def
      io_defs transferArgs_def example_defs)

lemma verify_rpc_down:
  "verify (w0\<lparr>getERC20Balance := \<lambda>token owner. Inl (Thrown ''HttpRequestError'')\<rparr>) p0 r0 [] =
    (Inl (Thrown ''HttpRequestError''), trace0)"
  by (simp add: verify_def resolve_def optional_name_def optional_version_def io_defs
      reject_def example_defs)

lemma settle_rpc_down:
  "settle (w0\<lparr>getERC20Balance := \<lambda>token owner. Inl (Thrown ''HttpRequestError'')\<rparr>) p0 r0 [] =
    (Inl (Thrown ''HttpRequestError''), trace0)"
  by (simp add: settle_def bnd_def verify_rpc_down)

lemma w0_facts:
  "scheme p0 = SCHEME" "req_scheme r0 = SCHEME"
  "verifyTypedData w0 (permitTypedData 84532 ''USDC'' usdc ''2'' p0) = Inr True"
  "getAddress w0 (auth_to (authorization (payload p0))) =
     Inr ''0x209693bc6afc0c5328ba36faf03c514ef312287c''"
  "getAddress w0 (payTo r0) = Inr ''0x209693bc6afc0c5328ba36faf03c514ef312287c''"
  "BigInt w0 (validBefore (authorization (payload p0))) = Inr 1700000060"
  "BigInt w0 (validAfter (authorization (payload p0))) = Inr 1699999990"
  "dateNow w0 0 = 1700000000000" "dateNow w0 1 = 1700000000001"
  "getERC20Balance w0 usdc (auth_from (authorization (payload p0))) = Inr 5000"
  "BigInt w0 (maxAmountRequired r0) = Inr 1000"
  "BigInt w0 (auth_value (authorization (payload p0))) = Inr 1000"
  "auth_from (authorization (payload p0)) = alice"
  "auth_to (authorization (payload p0)) = shop"
  "payTo r0 = ''0x209693bc6afc0c5328ba36faf03c514ef312287c''"
  by (simp_all add: example_defs)

subsection \<open>General facts\<close>

lemma verify_trace_no_submitter:
  "verify w p r [] = (res, tr) \<Longrightarrow> \<not> list_ex chain_submitter_call tr"
  by (auto simp: verify_def resolve_def io_defs
      split: if_splits prod.splits sum.splits option.splits)

lemma verify_payer:
  "verify w p r tr = (Inr v, tr') \<Longrightarrow> payer v = auth_from (authorization (payload p))"
  by (auto simp: verify_def io_defs reject_def split: if_splits prod.splits sum.splits)

lemma settle_response_payer:
  "settle w p r tr = (Inr s, tr') \<Longrightarrow>
   settle_payer s = auth_from (authorization (payload p))"
  by (auto simp: settle_def io_defs split: if_splits prod.splits sum.splits)

subsection \<open>Settling a rejected payment\<close>

text \<open>
  C1. Whenever \<^verbatim>\<open>verify\<close> returns a response with \<^verbatim>\<open>isValid = false\<close>, \<^verbatim>\<open>settle\<close> on the
  same inputs returns \<^verbatim>\<open>success = false\<close>, the empty transaction, the payer
  \<^verbatim>\<open>authorization.from\<close> and a settlement error code, and its trace is the trace of
  \<^verbatim>\<open>verify\<close>: neither \<^verbatim>\<open>writeContract\<close> nor \<^verbatim>\<open>waitForTransactionReceipt\<close> is called. The
  source maps every reason of the validator to the one code \<^verbatim>\<open>invalid_scheme\<close>.
\<close>

theorem settle_invalid_never_submits:
  assumes "verify w p r [] = (Inr v, tr)" and "\<not> isValid v"
  shows "settle w p r [] =
           (Inr \<lparr> success = False, settle_network = network p, transaction = '''',
                  errorReason = Some ''invalid_scheme'',
                  settle_payer = auth_from (authorization (payload p)) \<rparr>, tr)
         \<and> \<not> list_ex chain_submitter_call (snd (settle w p r []))"
proof -
  have s: "settle w p r [] =
           (Inr \<lparr> success = False, settle_network = network p, transaction = '''',
                  errorReason = Some ''invalid_scheme'',
                  settle_payer = auth_from (authorization (payload p)) \<rparr>, tr)"
    using assms by (simp add: settle_def io_defs)
  moreover have "\<not> list_ex chain_submitter_call tr"
    using assms(1) by (rule verify_trace_no_submitter)
  ultimately show ?thesis by simp
qed

theorem settle_invalid_never_submits_witness:
  "settle w0 (with_authorization (\<lambda>a. a\<lparr>validBefore := ''1699999999''\<rparr>) p0) r0 [] =
     (Inr \<lparr> success = False, settle_network = ''base-sepolia'', transaction = '''',
            errorReason = Some ''invalid_scheme'', settle_payer = alice \<rparr>,
      [E_getNetworkId ''base-sepolia'', E_getVersion,
       E_verifyTypedData
         (td0\<lparr>td_message := (td_message td0)\<lparr>msg_validBefore := ''1699999999''\<rparr>\<rparr>),
       E_getAddress shop, E_getAddress ''0x209693bc6afc0c5328ba36faf03c514ef312287c'',
       E_dateNow, E_dateNow])
   \<and> \<not> list_ex chain_submitter_call
        (snd (settle w0
           (with_authorization (\<lambda>a. a\<lparr>validBefore := ''1699999999''\<rparr>) p0) r0 []))"
  using settle_invalid_never_submits [OF verify_w0_expired]
  by (simp add: with_authorization_def p0_def)

subsection \<open>The payer of a response\<close>

text \<open>
  C3. Every response returned by \<^verbatim>\<open>verify\<close> and every response returned by \<^verbatim>\<open>settle\<close>
  carries as payer the string \<^verbatim>\<open>authorization.from\<close> of the payload. (\<^verbatim>\<open>verifyTypedData\<close>
  returns a boolean; no recovered address exists that the payer could be taken from.)
\<close>

theorem payer_is_authorization_from:
  "(verify w p r tr = (Inr v, tr') \<longrightarrow> payer v = auth_from (authorization (payload p)))
 \<and> (settle w p r tr = (Inr s, tr'') \<longrightarrow>
      settle_payer s = auth_from (authorization (payload p)))"
  using verify_payer [of w p r tr v tr'] settle_response_payer [of w p r tr s tr'']
  by blast

theorem payer_is_authorization_from_witness:
  "(\<exists>v tr. verify w0 p0 r0 [] = (Inr v, tr) \<and> payer v = alice)
 \<and> (\<exists>s tr. settle w0 p0 r0 [] = (Inr s, tr) \<and> settle_payer s = alice)"
  using payer_is_authorization_from [of w0 p0 r0 "[]"] verify_w0 settle_w0
  by (simp add: p0_def)

subsection \<open>Independence of the requirements' network\<close>

text \<open>
  C10. The result of \<^verbatim>\<open>verify\<close> does not depend on \<^verbatim>\<open>requirements.network\<close>: the field is
  never read, neither for the response nor for any external call; and a payload for
  another network than the requirements name can be valid (\<open>p0\<close> targets
  \<^verbatim>\<open>base-sepolia\<close>, \<open>r0\<close> names \<^verbatim>\<open>base\<close>).
\<close>

theorem verify_ignores_req_network:
  "verify w p (r\<lparr>req_network := n\<rparr>) tr = verify w p r tr
   \<and> network p0 \<noteq> req_network r0
   \<and> fst (verify w0 p0 r0 []) = Inr \<lparr>isValid = True, invalidReason = None, payer = alice\<rparr>"
proof -
  have "verify w p (r\<lparr>req_network := n\<rparr>) tr = verify w p r tr"
    by (simp add: verify_def resolve_def optional_name_def optional_version_def
        cong: if_cong)
  moreover have "network p0 \<noteq> req_network r0"
    by (simp add: p0_def r0_def)
  ultimately show ?thesis
    by (simp add: verify_w0)
qed

theorem verify_ignores_req_network_witness:
  "verify w0 p0 (r0\<lparr>req_network := ''base-sepolia''\<rparr>) [] =
     (Inr \<lparr>isValid = True, invalidReason = None, payer = alice\<rparr>, trace0)"
  using verify_ignores_req_network
    [where w = w0 and p = p0 and r = r0 and n = "''base-sepolia''" and tr = "[]"]
    verify_w0
  by simp

subsection \<open>The order of the checks\<close>

text \<open>
  C2. \<^verbatim>\<open>verify\<close> runs its checks in the order scheme, resolution, signature, recipient,
  expiry, not yet valid, solvency, amount, and returns at the first that fails. Each line
  of the statement takes the earlier checks as passed and the next as failed and gives the
  response together with the calls made up to that point, which end with the calls of the
  failing check (\<open>t1\<close> ends with the signature verification, \<open>t2\<close> with the two address
  normalisations, \<open>t3\<close> and \<open>t4\<close> with the clock read of the expiry check and of the next
  check, \<open>t5\<close> with the balance read). A temporal rejection reads the clock once more, for
  its log, before it returns; no call of a later check follows a failure. The
  last two lines are the converse: a run that reads the balance has passed all six checks
  before it, the signature verification among them and ahead of the balance read in the
  trace, whatever the run ends with; and a run that accepts has read the balance and found
  both the balance and the authorised amount sufficient.
\<close>

theorem verify_check_order:
  fixes w p r cid name addr ver t0 x y vb va bal req v
  defines "a \<equiv> authorization (payload p)"
    and "td \<equiv> permitTypedData cid name addr ver p"
  defines "t1 \<equiv> t0 @ [E_verifyTypedData td]"
  defines "t2 \<equiv> t1 @ [E_getAddress (auth_to a), E_getAddress (payTo r)]"
  defines "t3 \<equiv> t2 @ [E_dateNow]"
  defines "t4 \<equiv> t3 @ [E_dateNow]"
  defines "t5 \<equiv> t4 @ [E_getERC20Balance addr (auth_from a)]"
  defines "scheme_ok \<equiv> scheme p = SCHEME \<and> req_scheme r = SCHEME"
  defines "resolved \<equiv> scheme_ok \<and> resolve w p r [] = (Inr (cid, name, addr, ver), t0)"
  defines "signed \<equiv> resolved \<and> verifyTypedData w td = Inr True"
  defines "addressed \<equiv> signed \<and> getAddress w (auth_to a) = Inr x
                          \<and> getAddress w (payTo r) = Inr y \<and> x = y"
  defines "unexpired \<equiv> addressed \<and> BigInt w (validBefore a) = Inr vb
                          \<and> \<not> vb < dateNow w 0 div 1000 + 6"
  defines "started \<equiv> unexpired \<and> BigInt w (validAfter a) = Inr va
                          \<and> \<not> va > dateNow w 1 div 1000"
  defines "solvent \<equiv> started \<and> getERC20Balance w addr (auth_from a) = Inr bal
                          \<and> BigInt w (maxAmountRequired r) = Inr req \<and> \<not> bal < req"
  shows
    "(\<not> scheme_ok \<longrightarrow> (\<exists>m. verify w p r [] = (Inr (reject m p), [])))
   \<and> (scheme_ok \<and> fst (resolve w p r []) = Inl e \<longrightarrow>
        verify w p r [] = (Inr (reject ''invalid_network'' p), snd (resolve w p r [])))
   \<and> (resolved \<and> verifyTypedData w td = Inr False \<longrightarrow>
        verify w p r [] = (Inr (reject ''invalid_scheme'' p), t1))
   \<and> (signed \<and> getAddress w (auth_to a) = Inr x \<and> getAddress w (payTo r) = Inr y
        \<and> x \<noteq> y \<longrightarrow>
        verify w p r [] = (Inr (reject ''invalid_scheme'' p), t2))
   \<and> (addressed \<and> BigInt w (validBefore a) = Inr vb \<and> vb < dateNow w 0 div 1000 + 6 \<longrightarrow>
        verify w p r [] = (Inr (reject ''invalid_scheme'' p), t3 @ [E_dateNow]))
   \<and> (unexpired \<and> BigInt w (validAfter a) = Inr va \<and> va > dateNow w 1 div 1000 \<longrightarrow>
        verify w p r [] = (Inr (reject ''invalid_scheme'' p), t4 @ [E_dateNow]))
   \<and> (started \<and> getERC20Balance w addr (auth_from a) = Inr bal
        \<and> BigInt w (maxAmountRequired r) = Inr req \<and> bal < req \<longrightarrow>
        verify w p r [] = (Inr (reject ''insufficient_funds'' p), t5))
   \<and> (solvent \<and> BigInt w (auth_value a) = Inr v \<and> v < req \<longrightarrow>
        verify w p r [] = (Inr (reject ''invalid_scheme'' p), t5))
   \<and> (solvent \<and> BigInt w (auth_value a) = Inr v \<and> \<not> v < req \<longrightarrow>
        verify w p r [] =
          (Inr \<lparr>isValid = True, invalidReason = None, payer = auth_from a\<rparr>, t5))
   \<and> (\<forall>res tr. verify w p r [] = (res, tr) \<and> list_ex balance_oracle_call tr \<longrightarrow>
        (\<exists>cid name addr ver t0 x vb va.
           scheme p = SCHEME \<and> req_scheme r = SCHEME
         \<and> resolve w p r [] = (Inr (cid, name, addr, ver), t0)
         \<and> verifyTypedData w (permitTypedData cid name addr ver p) = Inr True
         \<and> getAddress w (auth_to a) = Inr x \<and> getAddress w (payTo r) = Inr x
         \<and> BigInt w (validBefore a) = Inr vb \<and> \<not> vb < dateNow w 0 div 1000 + 6
         \<and> BigInt w (validAfter a) = Inr va \<and> \<not> va > dateNow w 1 div 1000
         \<and> tr = t0 @ [E_verifyTypedData (permitTypedData cid name addr ver p),
                       E_getAddress (auth_to a), E_getAddress (payTo r), E_dateNow, E_dateNow,
                       E_getERC20Balance addr (auth_from a)]
         \<and> \<not> list_ex balance_oracle_call t0))
   \<and> (\<forall>res tr. verify w p r [] = (Inr res, tr) \<and> isValid res \<longrightarrow>
        list_ex balance_oracle_call tr
        \<and> (\<exists>addr bal req v.
              getERC20Balance w addr (auth_from a) = Inr bal
            \<and> BigInt w (maxAmountRequired r) = Inr req \<and> \<not> bal < req
            \<and> BigInt w (auth_value a) = Inr v \<and> \<not> v < req))"
proof -
  have resolve_quiet: "\<not> list_ex balance_oracle_call (snd (resolve w p r []))"
    by (auto simp: resolve_def io_defs split: sum.splits option.splits)
  have c1: "\<not> scheme_ok \<longrightarrow> (\<exists>m. verify w p r [] = (Inr (reject m p), []))"
    by (auto simp: scheme_ok_def verify_def io_defs)
  have c2: "scheme_ok \<and> fst (resolve w p r []) = Inl e \<longrightarrow>
        verify w p r [] = (Inr (reject ''invalid_network'' p), snd (resolve w p r []))"
    by (cases "resolve w p r []") (auto simp: scheme_ok_def verify_def io_defs)
  note stages = solvent_def started_def unexpired_def addressed_def signed_def resolved_def
    scheme_ok_def t5_def t4_def t3_def t2_def t1_def td_def a_def
  have c3: "resolved \<and> verifyTypedData w td = Inr False \<longrightarrow>
        verify w p r [] = (Inr (reject ''invalid_scheme'' p), t1)"
    by (simp add: stages verify_def io_defs)
  have c4: "signed \<and> getAddress w (auth_to a) = Inr x \<and> getAddress w (payTo r) = Inr y
        \<and> x \<noteq> y \<longrightarrow>
        verify w p r [] = (Inr (reject ''invalid_scheme'' p), t2)"
    by (simp add: stages verify_def io_defs)
  have c5: "addressed \<and> BigInt w (validBefore a) = Inr vb
        \<and> vb < dateNow w 0 div 1000 + 6 \<longrightarrow>
        verify w p r [] = (Inr (reject ''invalid_scheme'' p), t3 @ [E_dateNow])"
    by (simp add: stages verify_def io_defs)
  have c6: "unexpired \<and> BigInt w (validAfter a) = Inr va \<and> va > dateNow w 1 div 1000 \<longrightarrow>
        verify w p r [] = (Inr (reject ''invalid_scheme'' p), t4 @ [E_dateNow])"
    by (simp add: stages verify_def io_defs)
  have c7: "started \<and> getERC20Balance w addr (auth_from a) = Inr bal
        \<and> BigInt w (maxAmountRequired r) = Inr req \<and> bal < req \<longrightarrow>
        verify w p r [] = (Inr (reject ''insufficient_funds'' p), t5)"
    by (simp add: stages verify_def io_defs)
  have c8: "solvent \<and> BigInt w (auth_value a) = Inr v \<and> v < req \<longrightarrow>
        verify w p r [] = (Inr (reject ''invalid_scheme'' p), t5)"
    by (simp add: stages verify_def io_defs)
  have c9: "solvent \<and> BigInt w (auth_value a) = Inr v \<and> \<not> v < req \<longrightarrow>
        verify w p r [] =
          (Inr \<lparr>isValid = True, invalidReason = None, payer = auth_from a\<rparr>, t5)"
    by (simp add: stages verify_def io_defs)
  have c10: "\<forall>res tr. verify w p r [] = (res, tr) \<and> list_ex balance_oracle_call tr \<longrightarrow>
        (\<exists>cid name addr ver t0 x vb va.
           scheme p = SCHEME \<and> req_scheme r = SCHEME
         \<and> resolve w p r [] = (Inr (cid, name, addr, ver), t0)
         \<and> verifyTypedData w (permitTypedData cid name addr ver p) = Inr True
         \<and> getAddress w (auth_to a) = Inr x \<and> getAddress w (payTo r) = Inr x
         \<and> BigInt w (validBefore a) = Inr vb \<and> \<not> vb < dateNow w 0 div 1000 + 6
         \<and> BigInt w (validAfter a) = Inr va \<and> \<not> va > dateNow w 1 div 1000
         \<and> tr = t0 @ [E_verifyTypedData (permitTypedData cid name addr ver p),
                       E_getAddress (auth_to a), E_getAddress (payTo r), E_dateNow, E_dateNow,
                       E_getERC20Balance addr (auth_from a)]
         \<and> \<not> list_ex balance_oracle_call t0)"
    using resolve_quiet
    by (cases "resolve w p r []")
       (auto simp: a_def verify_def io_defs split: if_splits prod.splits sum.splits)
  have c11: "\<forall>res tr. verify w p r [] = (Inr res, tr) \<and> isValid res \<longrightarrow>
        list_ex balance_oracle_call tr
        \<and> (\<exists>addr bal req v.
              getERC20Balance w addr (auth_from a) = Inr bal
            \<and> BigInt w (maxAmountRequired r) = Inr req \<and> \<not> bal < req
            \<and> BigInt w (auth_value a) = Inr v \<and> \<not> v < req)"
    by (cases "resolve w p r []")
       (auto simp: a_def verify_def io_defs reject_def
          split: if_splits prod.splits sum.splits)
  show ?thesis
    by (intro conjI) (fact c1 c2 c3 c4 c5 c6 c7 c8 c9 c10 c11)+
qed

theorem verify_check_order_witness:
  "verify w0 p0 r0 [] =
     (Inr \<lparr>isValid = True, invalidReason = None, payer = alice\<rparr>, trace0)"
proof -
  note accepted = verify_check_order
      [where w = w0 and p = p0 and r = r0 and cid = 84532 and name = "''USDC''"
         and addr = usdc and ver = "''2''"
         and ?t0.0 = "[E_getNetworkId ''base-sepolia'', E_getVersion]"
         and x = "''0x209693bc6afc0c5328ba36faf03c514ef312287c''"
         and y = "''0x209693bc6afc0c5328ba36faf03c514ef312287c''"
         and vb = 1700000060 and va = 1699999990 and bal = 5000 and req = 1000
         and v = 1000,
       THEN conjunct2, THEN conjunct2, THEN conjunct2, THEN conjunct2, THEN conjunct2,
       THEN conjunct2, THEN conjunct2, THEN conjunct2, THEN conjunct1]
  from accepted resolve_w0 w0_facts show ?thesis
    by (simp add: trace0_def td0_def)
qed

subsection \<open>Scheme mismatch\<close>

text \<open>
  C4 (amended). When \<^verbatim>\<open>payload.scheme\<close> or \<^verbatim>\<open>requirements.scheme\<close> differs from the
  supported scheme, \<^verbatim>\<open>verify\<close> makes no external call and returns \<^verbatim>\<open>isValid = false\<close>
  with the payer and, as reason, not a code but the message
  \<^verbatim>\<open>Incompatible payload scheme. payload: ..., paymentRequirements: ..., supported: exact\<close>
  built from the two schemes, whatever the other fields are. The message differs from
  each of the three codes the later checks return.
\<close>

theorem scheme_mismatch_message:
  assumes "scheme p \<noteq> SCHEME \<or> req_scheme r \<noteq> SCHEME"
  shows "verify w p r tr =
           (Inr \<lparr> isValid = False,
                  invalidReason = Some (''Incompatible payload scheme. payload: '' @ scheme p
                     @ '', paymentRequirements: '' @ req_scheme r @ '', supported: exact''),
                  payer = auth_from (authorization (payload p)) \<rparr>, tr)
       \<and> ''Incompatible payload scheme. payload: '' @ scheme p
            @ '', paymentRequirements: '' @ req_scheme r @ '', supported: exact''
          \<notin> {''invalid_network'', ''invalid_scheme'', ''insufficient_funds''}"
  using assms by (auto simp: verify_def io_defs reject_def SCHEME_def)

theorem scheme_mismatch_message_witness:
  "verify w0 (p0\<lparr>scheme := ''upto''\<rparr>) r0 [] =
     (Inr \<lparr> isValid = False,
            invalidReason = Some ''Incompatible payload scheme. payload: upto, paymentRequirements: exact, supported: exact'',
            payer = alice \<rparr>, [])"
  using scheme_mismatch_message
    [where w = w0 and p = "p0\<lparr>scheme := ''upto''\<rparr>" and r = r0 and tr = "[]"]
  by (simp add: p0_def r0_def SCHEME_def)

text \<open>The claim as stated fails: for the payload \<open>p0\<close> with the scheme \<^verbatim>\<open>upto\<close> the reason
  is the message, not the code \<^verbatim>\<open>unsupported_scheme\<close>.\<close>

theorem scheme_mismatch_not_unsupported_scheme:
  "fst (verify w0 (p0\<lparr>scheme := ''upto''\<rparr>) r0 []) =
     Inr \<lparr> isValid = False,
           invalidReason = Some ''Incompatible payload scheme. payload: upto, paymentRequirements: exact, supported: exact'',
           payer = alice \<rparr>
   \<and> fst (verify w0 (p0\<lparr>scheme := ''upto''\<rparr>) r0 []) \<noteq>
     Inr \<lparr> isValid = False, invalidReason = Some ''unsupported_scheme'', payer = alice \<rparr>"
  by (simp add: verify_def io_defs reject_def p0_def r0_def SCHEME_def)

subsection \<open>Failures of the resolution step\<close>

text \<open>
  What the \<^verbatim>\<open>try\<close> block catches. With both schemes supported, every exception raised in
  the resolution step makes \<^verbatim>\<open>verify\<close> return \<^verbatim>\<open>isValid = false\<close> with the reason
  \<^verbatim>\<open>invalid_network\<close>, after the calls of the resolution step only: an unknown
  \<^verbatim>\<open>payload.network\<close>, a chain without configuration entry when the requirements give no
  token name, a failing version read when they give no version. \<^verbatim>\<open>invalid_network\<close> is
  returned only when the step has failed.
\<close>

lemma resolution_failure_invalid_network:
  assumes "scheme p = SCHEME" and "req_scheme r = SCHEME"
  shows
    "(getNetworkId w (network p) = Inl e \<longrightarrow>
        verify w p r [] = (Inr (reject ''invalid_network'' p), [E_getNetworkId (network p)]))
   \<and> (getNetworkId w (network p) = Inr cid \<and> optional_name r = None
        \<and> config w cid = None \<longrightarrow>
        verify w p r [] = (Inr (reject ''invalid_network'' p), [E_getNetworkId (network p)]))
   \<and> (getNetworkId w (network p) = Inr cid
        \<and> (optional_name r = None \<longrightarrow> config w cid \<noteq> None)
        \<and> optional_version r = None \<and> getVersion w = Inl e \<longrightarrow>
        verify w p r [] =
          (Inr (reject ''invalid_network'' p), [E_getNetworkId (network p), E_getVersion]))
   \<and> (fst (resolve w p r []) = Inl e \<longrightarrow>
        verify w p r [] = (Inr (reject ''invalid_network'' p), snd (resolve w p r [])))
   \<and> (\<forall>v tr. verify w p r [] = (Inr v, tr) \<and> invalidReason v = Some ''invalid_network''
        \<longrightarrow> isl (fst (resolve w p r [])))"
proof -
  have a1: "getNetworkId w (network p) = Inl e \<longrightarrow>
        verify w p r [] = (Inr (reject ''invalid_network'' p), [E_getNetworkId (network p)])"
    using assms by (simp add: verify_def resolve_def io_defs)
  have a2: "getNetworkId w (network p) = Inr cid \<and> optional_name r = None
        \<and> config w cid = None \<longrightarrow>
        verify w p r [] = (Inr (reject ''invalid_network'' p), [E_getNetworkId (network p)])"
    using assms by (simp add: verify_def resolve_def io_defs)
  have a3: "getNetworkId w (network p) = Inr cid
        \<and> (optional_name r = None \<longrightarrow> config w cid \<noteq> None)
        \<and> optional_version r = None \<and> getVersion w = Inl e \<longrightarrow>
        verify w p r [] =
          (Inr (reject ''invalid_network'' p), [E_getNetworkId (network p), E_getVersion])"
    using assms by (auto simp: verify_def resolve_def io_defs split: option.splits)
  have a4: "fst (resolve w p r []) = Inl e \<longrightarrow>
        verify w p r [] = (Inr (reject ''invalid_network'' p), snd (resolve w p r []))"
    using assms by (cases "resolve w p r []") (auto simp: verify_def io_defs)
  have a6: "\<forall>v tr. verify w p r [] = (Inr v, tr) \<and> invalidReason v = Some ''invalid_network''
        \<longrightarrow> isl (fst (resolve w p r []))"
    using assms
    by (cases "resolve w p r []")
       (auto simp: verify_def io_defs reject_def split: if_splits prod.splits sum.splits)
  show ?thesis
    by (intro conjI) (fact a1 a2 a3 a4 a6)+
qed

lemma unknown_network_run:
  "verify w0 (p0\<lparr>network := ''solana''\<rparr>) r0 [] =
     (Inr \<lparr>isValid = False, invalidReason = Some ''invalid_network'', payer = alice\<rparr>,
      [E_getNetworkId ''solana''])"
  using resolution_failure_invalid_network
    [where w = w0 and p = "p0\<lparr>network := ''solana''\<rparr>" and r = r0
       and e = "Thrown ''Unsupported network''", THEN conjunct1]
  by (simp add: p0_def r0_def w0_def SCHEME_def reject_def)

text \<open>
  What it does not catch. The token address is \<^verbatim>\<open>paymentRequirements.asset as Address\<close>, a
  cast: the resolution step succeeds or fails whatever the asset is, returns the asset as
  it stands, and \<^verbatim>\<open>verify\<close> hands it on as \<^verbatim>\<open>verifyingContract\<close> to the signature
  verification, which lies outside the \<^verbatim>\<open>try\<close> block. Once the step has succeeded, the
  answer is never \<^verbatim>\<open>invalid_network\<close>.
\<close>

lemma asset_not_examined:
  "isl (fst (resolve w p (r\<lparr>asset := s\<rparr>) [])) = isl (fst (resolve w p r []))"
  by (auto simp: resolve_def optional_name_def optional_version_def io_defs
      split: sum.splits option.splits)

lemma asset_reaches_signature_check:
  assumes "scheme p = SCHEME" and "req_scheme r = SCHEME"
    and "resolve w p r [] = (Inr (cid, name, addr, ver), t0)"
  shows "addr = asset r"
    and "verifyingContract (td_domain (permitTypedData cid name addr ver p)) = asset r"
    and "\<exists>res rest. verify w p r [] =
           (res, t0 @ E_verifyTypedData (permitTypedData cid name (asset r) ver p) # rest)"
    and "fst (verify w p r []) \<noteq> Inr (reject ''invalid_network'' p)"
proof -
  show addr: "addr = asset r"
    using assms(3)
    by (auto simp: resolve_def io_defs split: sum.splits option.splits)
  then show "verifyingContract (td_domain (permitTypedData cid name addr ver p)) = asset r"
    by (simp add: permitTypedData_def)
  show "\<exists>res rest. verify w p r [] =
           (res, t0 @ E_verifyTypedData (permitTypedData cid name (asset r) ver p) # rest)"
    using assms addr
    by (auto simp: verify_def io_defs split: sum.splits)
  show "fst (verify w p r []) \<noteq> Inr (reject ''invalid_network'' p)"
    using assms
    by (auto simp: verify_def io_defs reject_def split: sum.splits)
qed

text \<open>
  C5. The claim: any failure of the resolution step, an unknown \<^verbatim>\<open>payload.network\<close> or a
  malformed \<^verbatim>\<open>requirements.asset\<close> address, makes \<^verbatim>\<open>verify\<close> return \<^verbatim>\<open>isValid = false\<close>
  with the reason \<^verbatim>\<open>invalid_network\<close>, rather than throw or reach a later check. The
  source does so for the unknown network and breaks the claim for the malformed asset: with
  an asset one digit short of an address the resolution step succeeds, the run reaches the
  signature verification and ends there with the exception \<^verbatim>\<open>verifyTypedData\<close> throws for
  the malformed \<^verbatim>\<open>verifyingContract\<close>. The function's documentation ("Confirms USDC
  contract address is correct for the chain") and the message of the \<^verbatim>\<open>catch\<close> handler
  ("Failed to get chainId, name, erc20Address, or version") say the address is checked
  in this step.
\<close>

theorem malformed_asset_not_invalid_network:
  "verify w0 p0 (r0\<lparr>asset := ''0x036CbD53842c5426634e7929541eC2318f3dCF7''\<rparr>) [] =
     (Inl (Thrown ''InvalidAddressError''),
      [E_getNetworkId ''base-sepolia'', E_getVersion,
       E_verifyTypedData
         (permitTypedData 84532 ''USDC'' ''0x036CbD53842c5426634e7929541eC2318f3dCF7'' ''2'' p0)])"
  by (simp add: verify_def resolve_def optional_name_def optional_version_def io_defs
      example_defs)

theorem malformed_asset_not_invalid_network_witness:
  "fst (verify w0 p0 (r0\<lparr>asset := ''0x036CbD53842c5426634e7929541eC2318f3dCF7''\<rparr>) []) \<noteq>
     Inr \<lparr>isValid = False, invalidReason = Some ''invalid_network'', payer = alice\<rparr>
 \<and> \<not> list_ex balance_oracle_call
       (snd (verify w0 p0 (r0\<lparr>asset := ''0x036CbD53842c5426634e7929541eC2318f3dCF7''\<rparr>) []))"
  using malformed_asset_not_invalid_network
  by (simp add: permitTypedData_def)

subsection \<open>Temporal validity\<close>

text \<open>
  C6 (amended). For a payload that passes the scheme, resolution, signature and recipient
  checks and whose \<^verbatim>\<open>validBefore\<close> is a number \<open>vb\<close>: \<^verbatim>\<open>verify\<close> rejects at the expiry check
  exactly when \<open>vb\<close> is less than the current unix time plus 6 seconds; otherwise, with
  \<^verbatim>\<open>validAfter\<close> a number \<open>va\<close>, it rejects at the next check exactly when \<open>va\<close> is greater
  than the current unix time, and goes on to read the balance exactly when it is not. The
  reason of both rejections is \<^verbatim>\<open>invalid_scheme\<close>, the code the source gives to signature,
  recipient and amount failures as well; the trace tells the checks apart. A run rejected
  at the expiry check has read the clock twice after the address normalisations (for the
  comparison, at \<open>dateNow w 0\<close>, and for the log), one rejected at the next check three
  times (for the two comparisons, at \<open>dateNow w 0\<close> and \<open>dateNow w 1\<close>, and for the log).
\<close>

theorem temporal_check:
  fixes w p r cid name addr ver t0 x vb va
  defines "a \<equiv> authorization (payload p)"
  defines "t2 \<equiv> t0 @ [E_verifyTypedData (permitTypedData cid name addr ver p),
                        E_getAddress (auth_to a), E_getAddress (payTo r)]"
  assumes "scheme p = SCHEME" and "req_scheme r = SCHEME"
    and "resolve w p r [] = (Inr (cid, name, addr, ver), t0)"
    and "verifyTypedData w (permitTypedData cid name addr ver p) = Inr True"
    and "getAddress w (auth_to a) = Inr x" and "getAddress w (payTo r) = Inr x"
    and "BigInt w (validBefore a) = Inr vb"
  shows
    "(vb < dateNow w 0 div 1000 + 6 \<longleftrightarrow>
        verify w p r [] = (Inr (reject ''invalid_scheme'' p), t2 @ [E_dateNow, E_dateNow]))
   \<and> (\<not> vb < dateNow w 0 div 1000 + 6 \<and> BigInt w (validAfter a) = Inr va \<longrightarrow>
        (va > dateNow w 1 div 1000 \<longleftrightarrow>
           verify w p r [] =
             (Inr (reject ''invalid_scheme'' p), t2 @ [E_dateNow, E_dateNow, E_dateNow]))
      \<and> (\<not> va > dateNow w 1 div 1000 \<longleftrightarrow>
           list_ex balance_oracle_call (snd (verify w p r []))))"
proof -
  have quiet: "\<not> list_ex balance_oracle_call t0"
    using assms(5)
    by (auto simp: resolve_def io_defs split: sum.splits option.splits)
  have b1: "vb < dateNow w 0 div 1000 + 6 \<longleftrightarrow>
        verify w p r [] = (Inr (reject ''invalid_scheme'' p), t2 @ [E_dateNow, E_dateNow])"
    using assms(3-)
    by (auto simp: a_def t2_def verify_def io_defs split: sum.splits)
  have b2: "\<not> vb < dateNow w 0 div 1000 + 6 \<and> BigInt w (validAfter a) = Inr va \<longrightarrow>
        (va > dateNow w 1 div 1000 \<longleftrightarrow>
           verify w p r [] =
             (Inr (reject ''invalid_scheme'' p), t2 @ [E_dateNow, E_dateNow, E_dateNow]))
      \<and> (\<not> va > dateNow w 1 div 1000 \<longleftrightarrow>
           list_ex balance_oracle_call (snd (verify w p r [])))"
    using assms(3-) quiet
    by (auto simp: a_def t2_def verify_def io_defs split: sum.splits)
  show ?thesis by (intro conjI) (fact b1 b2)+
qed

text \<open>The witness: \<^verbatim>\<open>validBefore = now - 1\<close> is rejected at the expiry check, and
  \<^verbatim>\<open>validBefore = now + 10\<close> passes both temporal checks.\<close>

theorem temporal_check_witness:
  "verify w0 (with_authorization (\<lambda>a. a\<lparr>validBefore := ''1699999999''\<rparr>) p0) r0 [] =
     (Inr \<lparr>isValid = False, invalidReason = Some ''invalid_scheme'', payer = alice\<rparr>,
      [E_getNetworkId ''base-sepolia'', E_getVersion,
       E_verifyTypedData
         (td0\<lparr>td_message := (td_message td0)\<lparr>msg_validBefore := ''1699999999''\<rparr>\<rparr>),
       E_getAddress shop, E_getAddress ''0x209693bc6afc0c5328ba36faf03c514ef312287c'',
       E_dateNow, E_dateNow])
 \<and> list_ex balance_oracle_call
     (snd (verify w0 (with_authorization (\<lambda>a. a\<lparr>validBefore := ''1700000010''\<rparr>) p0) r0 []))"
proof
  show "verify w0 (with_authorization (\<lambda>a. a\<lparr>validBefore := ''1699999999''\<rparr>) p0) r0 [] =
     (Inr \<lparr>isValid = False, invalidReason = Some ''invalid_scheme'', payer = alice\<rparr>,
      [E_getNetworkId ''base-sepolia'', E_getVersion,
       E_verifyTypedData
         (td0\<lparr>td_message := (td_message td0)\<lparr>msg_validBefore := ''1699999999''\<rparr>\<rparr>),
       E_getAddress shop, E_getAddress ''0x209693bc6afc0c5328ba36faf03c514ef312287c'',
       E_dateNow, E_dateNow])"
    using temporal_check
      [where w = w0 and p = "with_authorization (\<lambda>a. a\<lparr>validBefore := ''1699999999''\<rparr>) p0"
         and r = r0 and cid = 84532 and name = "''USDC''" and addr = usdc and ver = "''2''"
         and ?t0.0 = "[E_getNetworkId ''base-sepolia'', E_getVersion]"
         and x = "''0x209693bc6afc0c5328ba36faf03c514ef312287c''" and vb = 1699999999,
       THEN conjunct1]
    by (simp add: resolve_def optional_name_def optional_version_def io_defs reject_def
        example_defs)
  show "list_ex balance_oracle_call
     (snd (verify w0 (with_authorization (\<lambda>a. a\<lparr>validBefore := ''1700000010''\<rparr>) p0) r0 []))"
    using temporal_check
      [where w = w0 and p = "with_authorization (\<lambda>a. a\<lparr>validBefore := ''1700000010''\<rparr>) p0"
         and r = r0 and cid = 84532 and name = "''USDC''" and addr = usdc and ver = "''2''"
         and ?t0.0 = "[E_getNetworkId ''base-sepolia'', E_getVersion]"
         and x = "''0x209693bc6afc0c5328ba36faf03c514ef312287c''" and vb = 1700000010
         and va = 1699999990,
       THEN conjunct2]
    by (simp add: resolve_def optional_name_def optional_version_def io_defs reject_def
        example_defs)
qed

text \<open>The claim as stated fails: one second before the current time, the reason is
  \<^verbatim>\<open>invalid_scheme\<close>, not \<^verbatim>\<open>authorization_expired\<close>.\<close>

theorem expired_not_authorization_expired:
  "fst (verify w0 (with_authorization (\<lambda>a. a\<lparr>validBefore := ''1699999999''\<rparr>) p0) r0 []) =
     Inr \<lparr>isValid = False, invalidReason = Some ''invalid_scheme'', payer = alice\<rparr>
 \<and> fst (verify w0 (with_authorization (\<lambda>a. a\<lparr>validBefore := ''1699999999''\<rparr>) p0) r0 []) \<noteq>
     Inr \<lparr>isValid = False, invalidReason = Some ''authorization_expired'', payer = alice\<rparr>"
  by (simp add: verify_w0_expired)

subsection \<open>Amount sufficiency\<close>

text \<open>
  C7 (amended). For a payload that passes every check up to and including solvency and
  whose \<^verbatim>\<open>authorization.value\<close> is a number \<open>v\<close>, with \<open>req\<close> the number
  \<^verbatim>\<open>maxAmountRequired\<close>: \<^verbatim>\<open>verify\<close> rejects exactly when \<open>v < req\<close>, and accepts exactly when
  not; so \<open>v = req - 1\<close> is rejected and \<open>v = req\<close> accepted. The reason of the rejection is
  \<^verbatim>\<open>invalid_scheme\<close>.
\<close>

theorem amount_check:
  fixes w p r cid name addr ver t0 x vb va bal req v
  defines "a \<equiv> authorization (payload p)"
  defines "t5 \<equiv> t0 @ [E_verifyTypedData (permitTypedData cid name addr ver p),
                        E_getAddress (auth_to a), E_getAddress (payTo r), E_dateNow, E_dateNow,
                        E_getERC20Balance addr (auth_from a)]"
  assumes "scheme p = SCHEME" and "req_scheme r = SCHEME"
    and "resolve w p r [] = (Inr (cid, name, addr, ver), t0)"
    and "verifyTypedData w (permitTypedData cid name addr ver p) = Inr True"
    and "getAddress w (auth_to a) = Inr x" and "getAddress w (payTo r) = Inr x"
    and "BigInt w (validBefore a) = Inr vb" and "\<not> vb < dateNow w 0 div 1000 + 6"
    and "BigInt w (validAfter a) = Inr va" and "\<not> va > dateNow w 1 div 1000"
    and "getERC20Balance w addr (auth_from a) = Inr bal"
    and "BigInt w (maxAmountRequired r) = Inr req" and "\<not> bal < req"
    and "BigInt w (auth_value a) = Inr v"
  shows
    "(v < req \<longleftrightarrow> verify w p r [] = (Inr (reject ''invalid_scheme'' p), t5))
   \<and> (\<not> v < req \<longleftrightarrow>
        verify w p r [] =
          (Inr \<lparr>isValid = True, invalidReason = None, payer = auth_from a\<rparr>, t5))
   \<and> (v = req - 1 \<longrightarrow> verify w p r [] = (Inr (reject ''invalid_scheme'' p), t5))
   \<and> (v = req \<longrightarrow>
        verify w p r [] =
          (Inr \<lparr>isValid = True, invalidReason = None, payer = auth_from a\<rparr>, t5))"
  using assms(3-)
  by (auto simp: a_def t5_def verify_def io_defs reject_def)

theorem amount_check_witness:
  "verify w0 (with_authorization (\<lambda>a. a\<lparr>auth_value := ''999''\<rparr>) p0) r0 [] =
     (Inr \<lparr>isValid = False, invalidReason = Some ''invalid_scheme'', payer = alice\<rparr>,
      [E_getNetworkId ''base-sepolia'', E_getVersion,
       E_verifyTypedData (td0\<lparr>td_message := (td_message td0)\<lparr>msg_value := ''999''\<rparr>\<rparr>),
       E_getAddress shop, E_getAddress ''0x209693bc6afc0c5328ba36faf03c514ef312287c'',
       E_dateNow, E_dateNow, E_getERC20Balance usdc alice])
 \<and> verify w0 p0 r0 [] =
     (Inr \<lparr>isValid = True, invalidReason = None, payer = alice\<rparr>, trace0)"
proof
  show "verify w0 (with_authorization (\<lambda>a. a\<lparr>auth_value := ''999''\<rparr>) p0) r0 [] =
     (Inr \<lparr>isValid = False, invalidReason = Some ''invalid_scheme'', payer = alice\<rparr>,
      [E_getNetworkId ''base-sepolia'', E_getVersion,
       E_verifyTypedData (td0\<lparr>td_message := (td_message td0)\<lparr>msg_value := ''999''\<rparr>\<rparr>),
       E_getAddress shop, E_getAddress ''0x209693bc6afc0c5328ba36faf03c514ef312287c'',
       E_dateNow, E_dateNow, E_getERC20Balance usdc alice])"
    using amount_check
      [where w = w0 and p = "with_authorization (\<lambda>a. a\<lparr>auth_value := ''999''\<rparr>) p0"
         and r = r0 and cid = 84532 and name = "''USDC''" and addr = usdc and ver = "''2''"
         and ?t0.0 = "[E_getNetworkId ''base-sepolia'', E_getVersion]"
         and x = "''0x209693bc6afc0c5328ba36faf03c514ef312287c''" and vb = 1700000060
         and va = 1699999990 and bal = 5000 and req = 1000 and v = 999,
       THEN conjunct2, THEN conjunct2, THEN conjunct1]
    by (simp add: resolve_def optional_name_def optional_version_def io_defs reject_def
        example_defs)
  show "verify w0 p0 r0 [] =
     (Inr \<lparr>isValid = True, invalidReason = None, payer = alice\<rparr>, trace0)"
    using amount_check
      [where w = w0 and p = p0
         and r = r0 and cid = 84532 and name = "''USDC''" and addr = usdc and ver = "''2''"
         and ?t0.0 = "[E_getNetworkId ''base-sepolia'', E_getVersion]"
         and x = "''0x209693bc6afc0c5328ba36faf03c514ef312287c''" and vb = 1700000060
         and va = 1699999990 and bal = 5000 and req = 1000 and v = 1000,
       THEN conjunct2, THEN conjunct2, THEN conjunct2]
    by (simp add: resolve_def optional_name_def optional_version_def io_defs reject_def
        example_defs)
qed

text \<open>The claim as stated fails: one unit below the required amount, the reason is
  \<^verbatim>\<open>invalid_scheme\<close>, not \<^verbatim>\<open>amount_too_low\<close>.\<close>

theorem low_amount_not_amount_too_low:
  "fst (verify w0 (with_authorization (\<lambda>a. a\<lparr>auth_value := ''999''\<rparr>) p0) r0 []) =
     Inr \<lparr>isValid = False, invalidReason = Some ''invalid_scheme'', payer = alice\<rparr>
 \<and> fst (verify w0 (with_authorization (\<lambda>a. a\<lparr>auth_value := ''999''\<rparr>) p0) r0 []) \<noteq>
     Inr \<lparr>isValid = False, invalidReason = Some ''amount_too_low'', payer = alice\<rparr>"
  by (simp add: verify_w0_low)

subsection \<open>A failed receipt\<close>

text \<open>
  C8 (amended). When the payload is valid, the transaction is submitted and the awaited
  receipt has a status other than \<^verbatim>\<open>success\<close>, \<^verbatim>\<open>settle\<close> returns \<^verbatim>\<open>success = false\<close> with
  the transaction field set to the hash the submission returned, the payer, and the error
  reason \<^verbatim>\<open>invalid_scheme\<close>.
\<close>

theorem failed_receipt_response:
  assumes "verify w p r [] = (Inr valid, tr)" and "isValid valid"
    and "BigInt w (auth_value (authorization (payload p))) = Inr v"
    and "BigInt w (validAfter (authorization (payload p))) = Inr va"
    and "BigInt w (validBefore (authorization (payload p))) = Inr vb"
    and "writeContract w (transferArgs p r v va vb) = Inr tx"
    and "waitForTransactionReceipt w tx = Inr status"
    and "status \<noteq> ''success''"
  shows "settle w p r [] =
           (Inr \<lparr> success = False, settle_network = network p, transaction = tx,
                  errorReason = Some ''invalid_scheme'',
                  settle_payer = auth_from (authorization (payload p)) \<rparr>,
            tr @ [E_writeContract (transferArgs p r v va vb), E_waitForTransactionReceipt tx])"
  using assms by (simp add: settle_def io_defs)

theorem failed_receipt_response_witness:
  "settle (w0\<lparr>waitForTransactionReceipt := \<lambda>h. Inr ''reverted''\<rparr>) p0 r0 [] =
    (Inr \<lparr>success = False, settle_network = ''base-sepolia'',
          transaction = ''0x7a1e5d0a3c9b4f6e8d2c1b0a9f8e7d6c5b4a39281706f5e4d3c2b1a0f9e8d7c6'',
          errorReason = Some ''invalid_scheme'', settle_payer = alice\<rparr>,
     trace0 @ [E_writeContract (transferArgs p0 r0 1000 1699999990 1700000060),
               E_waitForTransactionReceipt
                 ''0x7a1e5d0a3c9b4f6e8d2c1b0a9f8e7d6c5b4a39281706f5e4d3c2b1a0f9e8d7c6''])"
  using failed_receipt_response
    [where w = "w0\<lparr>waitForTransactionReceipt := \<lambda>h. Inr ''reverted''\<rparr>" and p = p0
       and r = r0 and v = 1000 and va = 1699999990 and vb = 1700000060
       and tx = "''0x7a1e5d0a3c9b4f6e8d2c1b0a9f8e7d6c5b4a39281706f5e4d3c2b1a0f9e8d7c6''"
       and status = "''reverted''",
     OF verify_reverted]
  by (simp add: w0_def p0_def alice_def digit_def)

text \<open>The claim as stated fails: for a reverted transaction the error reason is
  \<^verbatim>\<open>invalid_scheme\<close>, not \<^verbatim>\<open>settlement_failed\<close>.\<close>

theorem failed_receipt_not_settlement_failed:
  "map_sum id errorReason
     (fst (settle (w0\<lparr>waitForTransactionReceipt := \<lambda>h. Inr ''reverted''\<rparr>) p0 r0 [])) =
     Inr (Some ''invalid_scheme'')
 \<and> map_sum id errorReason
     (fst (settle (w0\<lparr>waitForTransactionReceipt := \<lambda>h. Inr ''reverted''\<rparr>) p0 r0 [])) \<noteq>
     Inr (Some ''settlement_failed'')
 \<and> map_sum id transaction
     (fst (settle (w0\<lparr>waitForTransactionReceipt := \<lambda>h. Inr ''reverted''\<rparr>) p0 r0 [])) =
     Inr ''0x7a1e5d0a3c9b4f6e8d2c1b0a9f8e7d6c5b4a39281706f5e4d3c2b1a0f9e8d7c6''"
  by (simp add: settle_reverted)

subsection \<open>Exceptions of the collaborators\<close>

text \<open>
  C9 (amended). \<^verbatim>\<open>verify\<close> catches an exception only in the resolution step, where it
  answers with the reject \<^verbatim>\<open>invalid_network\<close>. An exception thrown after that step leaves
  \<^verbatim>\<open>verify\<close> as an exception, after the calls made so far, whichever evaluation throws
  it: the signature verification, either address normalisation, the \<^verbatim>\<open>BigInt\<close> conversion
  of \<^verbatim>\<open>validBefore\<close>, of \<^verbatim>\<open>validAfter\<close>, of \<^verbatim>\<open>maxAmountRequired\<close> or of the authorised
  value, or the balance read. Every exception of \<^verbatim>\<open>verify\<close> is one of these.
  \<^verbatim>\<open>settle\<close> passes on every exception of \<^verbatim>\<open>verify\<close>, and an exception of the
  submission or of the wait for the receipt leaves \<^verbatim>\<open>settle\<close> likewise. (The conversions
  among the arguments of \<^verbatim>\<open>writeContract\<close> repeat conversions \<^verbatim>\<open>verify\<close> has made on the
  same strings.) No response of either function carries the reason \<^verbatim>\<open>unknown_error\<close>.
\<close>

theorem exceptions_propagate:
  fixes w p r cid name addr ver t0 x vb va bal req v
  defines "a \<equiv> authorization (payload p)"
    and "td \<equiv> permitTypedData cid name addr ver p"
  defines "t1 \<equiv> t0 @ [E_verifyTypedData td]"
  defines "t2 \<equiv> t1 @ [E_getAddress (auth_to a), E_getAddress (payTo r)]"
  defines "t3 \<equiv> t2 @ [E_dateNow]"
  defines "t4 \<equiv> t3 @ [E_dateNow]"
  defines "t5 \<equiv> t4 @ [E_getERC20Balance addr (auth_from a)]"
  defines "resolved \<equiv> scheme p = SCHEME \<and> req_scheme r = SCHEME
                          \<and> resolve w p r [] = (Inr (cid, name, addr, ver), t0)"
  defines "signed \<equiv> resolved \<and> verifyTypedData w td = Inr True"
  defines "addressed \<equiv> signed \<and> getAddress w (auth_to a) = Inr x
                          \<and> getAddress w (payTo r) = Inr x"
  defines "unexpired \<equiv> addressed \<and> BigInt w (validBefore a) = Inr vb
                          \<and> \<not> vb < dateNow w 0 div 1000 + 6"
  defines "started \<equiv> unexpired \<and> BigInt w (validAfter a) = Inr va
                          \<and> \<not> va > dateNow w 1 div 1000"
  defines "funded \<equiv> started \<and> getERC20Balance w addr (auth_from a) = Inr bal"
  defines "solvent \<equiv> funded \<and> BigInt w (maxAmountRequired r) = Inr req \<and> \<not> bal < req"
  defines "args \<equiv> transferArgs p r v va vb"
  defines "valid \<equiv> \<lambda>tr. (\<exists>res. verify w p r [] = (Inr res, tr) \<and> isValid res)
                          \<and> BigInt w (auth_value a) = Inr v
                          \<and> BigInt w (validAfter a) = Inr va
                          \<and> BigInt w (validBefore a) = Inr vb"
  shows
    "(scheme p = SCHEME \<and> req_scheme r = SCHEME \<and> fst (resolve w p r []) = Inl e \<longrightarrow>
        verify w p r [] = (Inr (reject ''invalid_network'' p), snd (resolve w p r [])))
   \<and> (resolved \<and> verifyTypedData w td = Inl e \<longrightarrow> verify w p r [] = (Inl e, t1))
   \<and> (signed \<and> getAddress w (auth_to a) = Inl e \<longrightarrow>
        verify w p r [] = (Inl e, t1 @ [E_getAddress (auth_to a)]))
   \<and> (signed \<and> getAddress w (auth_to a) = Inr x \<and> getAddress w (payTo r) = Inl e \<longrightarrow>
        verify w p r [] = (Inl e, t2))
   \<and> (addressed \<and> BigInt w (validBefore a) = Inl e \<longrightarrow> verify w p r [] = (Inl e, t2))
   \<and> (unexpired \<and> BigInt w (validAfter a) = Inl e \<longrightarrow> verify w p r [] = (Inl e, t3))
   \<and> (started \<and> getERC20Balance w addr (auth_from a) = Inl e \<longrightarrow>
        verify w p r [] = (Inl e, t5))
   \<and> (funded \<and> BigInt w (maxAmountRequired r) = Inl e \<longrightarrow> verify w p r [] = (Inl e, t5))
   \<and> (solvent \<and> BigInt w (auth_value a) = Inl e \<longrightarrow> verify w p r [] = (Inl e, t5))
   \<and> (\<forall>tr. verify w p r [] = (Inl e, tr) \<longrightarrow> settle w p r [] = (Inl e, tr))
   \<and> (\<forall>tr. valid tr \<and> writeContract w args = Inl e \<longrightarrow>
        settle w p r [] = (Inl e, tr @ [E_writeContract args]))
   \<and> (\<forall>tr tx. valid tr \<and> writeContract w args = Inr tx
        \<and> waitForTransactionReceipt w tx = Inl e \<longrightarrow>
        settle w p r [] =
          (Inl e, tr @ [E_writeContract args, E_waitForTransactionReceipt tx]))
   \<and> (\<forall>tr. verify w p r [] = (Inl e, tr) \<longrightarrow>
        scheme p = SCHEME \<and> req_scheme r = SCHEME \<and> \<not> isl (fst (resolve w p r []))
        \<and> ((\<exists>d. verifyTypedData w d = Inl e) \<or> (\<exists>s. getAddress w s = Inl e)
            \<or> (\<exists>s. BigInt w s = Inl e) \<or> (\<exists>token owner. getERC20Balance w token owner = Inl e)))
   \<and> (\<forall>res tr. verify w p r [] = (Inr res, tr) \<longrightarrow>
        invalidReason res \<noteq> Some ''unknown_error'')
   \<and> (\<forall>res tr. settle w p r [] = (Inr res, tr) \<longrightarrow>
        errorReason res \<noteq> Some ''unknown_error'')"
proof -
  note stages = solvent_def funded_def started_def unexpired_def addressed_def signed_def
    resolved_def t5_def t4_def t3_def t2_def t1_def td_def a_def valid_def args_def
  have d1: "scheme p = SCHEME \<and> req_scheme r = SCHEME \<and> fst (resolve w p r []) = Inl e \<longrightarrow>
        verify w p r [] = (Inr (reject ''invalid_network'' p), snd (resolve w p r []))"
    by (cases "resolve w p r []") (auto simp: verify_def io_defs)
  have d2: "resolved \<and> verifyTypedData w td = Inl e \<longrightarrow> verify w p r [] = (Inl e, t1)"
    by (simp add: stages verify_def io_defs)
  have d3: "signed \<and> getAddress w (auth_to a) = Inl e \<longrightarrow>
        verify w p r [] = (Inl e, t1 @ [E_getAddress (auth_to a)])"
    by (simp add: stages verify_def io_defs)
  have d4: "signed \<and> getAddress w (auth_to a) = Inr x \<and> getAddress w (payTo r) = Inl e \<longrightarrow>
        verify w p r [] = (Inl e, t2)"
    by (simp add: stages verify_def io_defs)
  have d5: "addressed \<and> BigInt w (validBefore a) = Inl e \<longrightarrow> verify w p r [] = (Inl e, t2)"
    by (simp add: stages verify_def io_defs)
  have d6: "unexpired \<and> BigInt w (validAfter a) = Inl e \<longrightarrow> verify w p r [] = (Inl e, t3)"
    by (simp add: stages verify_def io_defs)
  have d7: "started \<and> getERC20Balance w addr (auth_from a) = Inl e \<longrightarrow>
        verify w p r [] = (Inl e, t5)"
    by (simp add: stages verify_def io_defs)
  have d8: "funded \<and> BigInt w (maxAmountRequired r) = Inl e \<longrightarrow>
        verify w p r [] = (Inl e, t5)"
    by (simp add: stages verify_def io_defs)
  have d9: "solvent \<and> BigInt w (auth_value a) = Inl e \<longrightarrow> verify w p r [] = (Inl e, t5)"
    by (simp add: stages verify_def io_defs)
  have d10: "\<forall>tr. verify w p r [] = (Inl e, tr) \<longrightarrow> settle w p r [] = (Inl e, tr)"
    by (simp add: settle_def bnd_def)
  have d11: "\<forall>tr. valid tr \<and> writeContract w args = Inl e \<longrightarrow>
        settle w p r [] = (Inl e, tr @ [E_writeContract args])"
    by (auto simp: stages settle_def io_defs)
  have d12: "\<forall>tr tx. valid tr \<and> writeContract w args = Inr tx
        \<and> waitForTransactionReceipt w tx = Inl e \<longrightarrow>
        settle w p r [] =
          (Inl e, tr @ [E_writeContract args, E_waitForTransactionReceipt tx])"
    by (auto simp: stages settle_def io_defs)
  have d13: "\<forall>tr. verify w p r [] = (Inl e, tr) \<longrightarrow>
        scheme p = SCHEME \<and> req_scheme r = SCHEME \<and> \<not> isl (fst (resolve w p r []))
        \<and> ((\<exists>d. verifyTypedData w d = Inl e) \<or> (\<exists>s. getAddress w s = Inl e)
            \<or> (\<exists>s. BigInt w s = Inl e) \<or> (\<exists>token owner. getERC20Balance w token owner = Inl e))"
    by (cases "resolve w p r []")
       (auto simp: verify_def io_defs split: if_splits prod.splits sum.splits)
  have d14: "\<forall>res tr. verify w p r [] = (Inr res, tr) \<longrightarrow>
        invalidReason res \<noteq> Some ''unknown_error''"
    by (auto simp: verify_def io_defs reject_def split: if_splits prod.splits sum.splits)
  have d15: "\<forall>res tr. settle w p r [] = (Inr res, tr) \<longrightarrow>
        errorReason res \<noteq> Some ''unknown_error''"
    by (auto simp: settle_def io_defs split: if_splits prod.splits sum.splits)
  show ?thesis
    by (intro conjI) (fact d1 d2 d3 d4 d5 d6 d7 d8 d9 d10 d11 d12 d13 d14 d15)+
qed

text \<open>The witness: with a balance read that fails, the exception leaves \<^verbatim>\<open>verify\<close>, and
  \<^verbatim>\<open>settle\<close> with it; and a \<^verbatim>\<open>validBefore\<close> that is no number makes \<^verbatim>\<open>BigInt\<close> throw, and
  \<^verbatim>\<open>verify\<close> with it.\<close>

theorem exceptions_propagate_witness:
  "verify (w0\<lparr>getERC20Balance := \<lambda>token owner. Inl (Thrown ''HttpRequestError'')\<rparr>) p0 r0 [] =
     (Inl (Thrown ''HttpRequestError''), trace0)
 \<and> settle (w0\<lparr>getERC20Balance := \<lambda>token owner. Inl (Thrown ''HttpRequestError'')\<rparr>) p0 r0 [] =
     (Inl (Thrown ''HttpRequestError''), trace0)
 \<and> verify w0 (with_authorization (\<lambda>a. a\<lparr>validBefore := ''soon''\<rparr>) p0) r0 [] =
     (Inl (Thrown ''SyntaxError''),
      [E_getNetworkId ''base-sepolia'', E_getVersion,
       E_verifyTypedData (td0\<lparr>td_message := (td_message td0)\<lparr>msg_validBefore := ''soon''\<rparr>\<rparr>),
       E_getAddress shop, E_getAddress ''0x209693bc6afc0c5328ba36faf03c514ef312287c''])"
proof -
  note inst = exceptions_propagate
    [where w = "w0\<lparr>getERC20Balance := \<lambda>token owner. Inl (Thrown ''HttpRequestError'')\<rparr>"
       and p = p0 and r = r0 and cid = 84532 and name = "''USDC''" and addr = usdc
       and ver = "''2''" and ?t0.0 = "[E_getNetworkId ''base-sepolia'', E_getVersion]"
       and x = "''0x209693bc6afc0c5328ba36faf03c514ef312287c''" and vb = 1700000060
       and va = 1699999990 and e = "Thrown ''HttpRequestError''"]
  have v: "verify (w0\<lparr>getERC20Balance := \<lambda>token owner. Inl (Thrown ''HttpRequestError'')\<rparr>)
             p0 r0 [] = (Inl (Thrown ''HttpRequestError''), trace0)"
    using inst [THEN conjunct2, THEN conjunct2, THEN conjunct2, THEN conjunct2,
      THEN conjunct2, THEN conjunct2, THEN conjunct1]
    by (simp add: resolve_def optional_name_def optional_version_def io_defs example_defs)
  have s: "settle (w0\<lparr>getERC20Balance := \<lambda>token owner. Inl (Thrown ''HttpRequestError'')\<rparr>)
             p0 r0 [] = (Inl (Thrown ''HttpRequestError''), trace0)"
    using v inst [THEN conjunct2, THEN conjunct2, THEN conjunct2, THEN conjunct2,
      THEN conjunct2, THEN conjunct2, THEN conjunct2, THEN conjunct2, THEN conjunct2,
      THEN conjunct1]
    by simp
  have b: "verify w0 (with_authorization (\<lambda>a. a\<lparr>validBefore := ''soon''\<rparr>) p0) r0 [] =
     (Inl (Thrown ''SyntaxError''),
      [E_getNetworkId ''base-sepolia'', E_getVersion,
       E_verifyTypedData (td0\<lparr>td_message := (td_message td0)\<lparr>msg_validBefore := ''soon''\<rparr>\<rparr>),
       E_getAddress shop, E_getAddress ''0x209693bc6afc0c5328ba36faf03c514ef312287c''])"
    using exceptions_propagate
      [where w = w0 and p = "with_authorization (\<lambda>a. a\<lparr>validBefore := ''soon''\<rparr>) p0"
         and r = r0 and cid = 84532 and name = "''USDC''" and addr = usdc
         and ver = "''2''" and ?t0.0 = "[E_getNetworkId ''base-sepolia'', E_getVersion]"
         and x = "''0x209693bc6afc0c5328ba36faf03c514ef312287c''"
         and e = "Thrown ''SyntaxError''",
       THEN conjunct2, THEN conjunct2, THEN conjunct2, THEN conjunct2, THEN conjunct1]
    by (simp add: resolve_def optional_name_def optional_version_def io_defs example_defs)
  from v s b show ?thesis by simp
qed

text \<open>The claim as stated fails: the exception of the balance read is not mapped to a
  response; both functions end with it.\<close>

theorem balance_exception_not_caught:
  "fst (verify (w0\<lparr>getERC20Balance := \<lambda>token owner. Inl (Thrown ''HttpRequestError'')\<rparr>)
     p0 r0 []) = Inl (Thrown ''HttpRequestError'')
 \<and> fst (settle (w0\<lparr>getERC20Balance := \<lambda>token owner. Inl (Thrown ''HttpRequestError'')\<rparr>)
     p0 r0 []) = Inl (Thrown ''HttpRequestError'')"
  by (simp add: verify_rpc_down settle_rpc_down)

end
